theory Spec2Isabelle
  imports Main
begin

section \<open>The wallet connector of dns-frontend (src/components/WalletConnector.tsx)\<close>

text \<open>
  The component keeps a connection session (React state), a throttle for error
  notifications (a ref), and talks to three outside parties: the wallet providers
  injected under \<open>window.cardano\<close>, the host application through its callbacks, and the
  console. The model makes all of them explicit: the providers are stubs that answer by
  invocation number, and every call the component makes is appended to a log kept in
  the state.
\<close>

subsection \<open>JavaScript strings\<close>

text \<open>\<open>String.prototype.includes\<close>: does \<open>sub\<close> occur in the string.\<close>

fun str_includes :: "string \<Rightarrow> string \<Rightarrow> bool" where
  "str_includes [] sub = (sub = [])"
| "str_includes (c # cs) sub = (take (length sub) (c # cs) = sub \<or> str_includes cs sub)"

text \<open>\<open>String.prototype.toLowerCase\<close>, on the ASCII letters.\<close>

definition lowerChar :: "char \<Rightarrow> char" where
  "lowerChar c =
     (if (65::nat) \<le> of_char c \<and> of_char c \<le> (90::nat)
      then char_of (of_char c + (32::nat)) else c)"

definition toLowerCase :: "string \<Rightarrow> string" where
  "toLowerCase s = map lowerChar s"

subsection \<open>Data\<close>

text \<open>A capability handle (\<open>CardanoWalletApi\<close> object) is identified by a number.\<close>

type_synonym handle = nat

text \<open>
  What a rejected promise carries: an \<open>Error\<close> with its message, or any other value
  (\<open>error instanceof Error\<close> is false for it).
\<close>

datatype thrown = JsError string | JsOther

text \<open>A stub answers its n-th invocation (counted from 0) with a rejection or a value.\<close>

type_synonym 'a stub = "nat \<Rightarrow> thrown + 'a"

record env =
  cardano :: "string \<rightharpoonup> handle stub"
  getNetworkId :: "handle \<Rightarrow> int stub"
  getRewardAddresses :: "handle \<Rightarrow> (string list) stub"

datatype NetworkType = MAINNET | TESTNET

datatype ListLayout = Dropdown | Flex

text \<open>
  The props the logic reads. For the optional callbacks the record says whether the host
  supplied them; \<open>showError\<close> always exists (it defaults to the console).
\<close>

record props =
  listLayout :: ListLayout
  initiallyOpen :: bool
  networkType :: NetworkType
  has_onConnect :: bool
  has_onDisconnect :: bool
  has_navigateOnConnect :: bool

record WalletState =
  isConnected :: bool
  walletName :: "string option"
  walletApi :: "handle option"
  stakeAddress :: "string option"

text \<open>Calls on the providers and timer waits, in the order the component makes them.\<close>

datatype call =
    Enable string
  | GetNetworkId handle
  | GetRewardAddresses handle
  | Delay nat

text \<open>
  The component: its React state, the throttle's ref, the logs of what it called
  (\<open>shown\<close>: showError, \<open>connects\<close>: onConnect, \<open>disconnects\<close>: onDisconnect,
  \<open>navigations\<close>: navigateOnConnect, \<open>console\<close>: console.error, \<open>calls\<close>: providers
  and timers), and how often each stub has been invoked so far.
\<close>

record component =
  walletState :: WalletState
  showWalletList :: bool
  connectionError :: "string option"
  isConnecting :: bool
  pendingWallet :: "string option"
  lastErrorRef :: "(string \<times> int) option"
  shown :: "string list"
  connects :: "(string \<times> handle \<times> string option) list"
  disconnects :: nat
  navigations :: "string list"
  console :: "string list"
  calls :: "call list"
  enableCount :: "string \<Rightarrow> nat"
  networkCount :: "handle \<Rightarrow> nat"
  rewardCount :: "handle \<Rightarrow> nat"

definition disconnectedWallet :: WalletState where
  "disconnectedWallet =
     \<lparr>isConnected = False, walletName = None, walletApi = None, stakeAddress = None\<rparr>"

definition initial :: "props \<Rightarrow> component" where
  "initial p =
     \<lparr>walletState = disconnectedWallet,
      showWalletList = initiallyOpen p,
      connectionError = None,
      isConnecting = False,
      pendingWallet = None,
      lastErrorRef = None,
      shown = [], connects = [], disconnects = 0, navigations = [], console = [],
      calls = [],
      enableCount = (\<lambda>_. 0), networkCount = (\<lambda>_. 0), rewardCount = (\<lambda>_. 0)\<rparr>"

subsection \<open>Calls on the outside world\<close>

text \<open>
  \<open>window.cardano[name].enable()\<close>. Reading \<open>enable\<close> of a missing entry is a
  TypeError (the component only gets there after it has seen the entry).
\<close>

definition callEnable :: "env \<Rightarrow> string \<Rightarrow> component \<Rightarrow> (thrown + handle) \<times> component" where
  "callEnable e wn s =
     (case cardano e wn of
        None \<Rightarrow> (Inl (JsError ''TypeError''), s)
      | Some enable \<Rightarrow>
          (enable (enableCount s wn),
           s\<lparr>calls := calls s @ [Enable wn],
             enableCount := (enableCount s)(wn := Suc (enableCount s wn))\<rparr>))"

definition callGetNetworkId :: "env \<Rightarrow> handle \<Rightarrow> component \<Rightarrow> (thrown + int) \<times> component" where
  "callGetNetworkId e api s =
     (getNetworkId e api (networkCount s api),
      s\<lparr>calls := calls s @ [GetNetworkId api],
        networkCount := (networkCount s)(api := Suc (networkCount s api))\<rparr>)"

definition callGetRewardAddresses ::
  "env \<Rightarrow> handle \<Rightarrow> component \<Rightarrow> (thrown + string list) \<times> component" where
  "callGetRewardAddresses e api s =
     (getRewardAddresses e api (rewardCount s api),
      s\<lparr>calls := calls s @ [GetRewardAddresses api],
        rewardCount := (rewardCount s)(api := Suc (rewardCount s api))\<rparr>)"

text \<open>\<open>await new Promise((resolve) => setTimeout(resolve, ms))\<close>\<close>

definition delay :: "nat \<Rightarrow> component \<Rightarrow> component" where
  "delay ms s = s\<lparr>calls := calls s @ [Delay ms]\<rparr>"

subsection \<open>The error throttle (showErrorOnce)\<close>

text \<open>
  The condition of showErrorOnce, on the remembered pair, the value of \<open>Date.now()\<close>
  and the message.
\<close>

definition shouldShow :: "(string \<times> int) option \<Rightarrow> int \<Rightarrow> string \<Rightarrow> bool" where
  "shouldShow lastError now message =
     (case lastError of
        None \<Rightarrow> True
      | Some (m, timestamp) \<Rightarrow> m \<noteq> message \<or> now - timestamp > 1000)"

definition showErrorOnce :: "int \<Rightarrow> string \<Rightarrow> component \<Rightarrow> component" where
  "showErrorOnce now message s =
     (if shouldShow (lastErrorRef s) now message
      then s\<lparr>shown := shown s @ [message], lastErrorRef := Some (message, now)\<rparr>
      else s)"

subsection \<open>The wallet list\<close>

definition openWalletList :: "props \<Rightarrow> component \<Rightarrow> component" where
  "openWalletList p s =
     (let s1 = s\<lparr>connectionError := None, pendingWallet := None\<rparr>
      in if listLayout p = Dropdown
         then s1\<lparr>showWalletList := \<not> showWalletList s1\<rparr>
         else s1\<lparr>showWalletList := True\<rparr>)"

definition closeWalletList :: "component \<Rightarrow> component" where
  "closeWalletList s =
     (if isConnecting s then s
      else s\<lparr>showWalletList := False, connectionError := None, pendingWallet := None\<rparr>)"

text \<open>
  The mousedown listener, for a click outside the element \<open>dropdownRef\<close> points to.
  It is installed in the dropdown layout only, and it tests \<open>dropdownRef.current\<close>
  first: every rendering of a session that is not connected puts the ref on an element,
  the rendering of a connected one (the Disconnect button) on none, so the ref is set
  exactly while the session is not connected.
\<close>

definition handleClickOutside :: "props \<Rightarrow> component \<Rightarrow> component" where
  "handleClickOutside p s =
     (if listLayout p = Dropdown
      then (if \<not> isConnected (walletState s)
            then s\<lparr>showWalletList := False, connectionError := None\<rparr>
            else s)
      else s)"

subsection \<open>Connecting and disconnecting\<close>

definition handleSuccessfulConnect ::
  "props \<Rightarrow> string \<Rightarrow> handle \<Rightarrow> string option \<Rightarrow> component \<Rightarrow> component" where
  "handleSuccessfulConnect p wn api stake s =
     (let s1 = s\<lparr>connectionError := None,
                 showWalletList := False,
                 walletState := \<lparr>isConnected = True, walletName = Some wn,
                                  walletApi = Some api, stakeAddress = stake\<rparr>\<rparr>
      in if has_onConnect p then s1\<lparr>connects := connects s1 @ [(wn, api, stake)]\<rparr>
         else if has_navigateOnConnect p then s1\<lparr>navigations := navigations s1 @ [''/account'']\<rparr>
         else s1)"

definition handleDisconnect :: "props \<Rightarrow> component \<Rightarrow> component" where
  "handleDisconnect p s =
     (let s1 = s\<lparr>walletState := disconnectedWallet\<rparr>
      in if has_onDisconnect p then s1\<lparr>disconnects := Suc (disconnects s1)\<rparr> else s1)"

text \<open>
  The test of the inner catch block:
  \<open>error instanceof Error && (error.message.includes("account changed") ||
  error.message.includes("Account changed"))\<close>
\<close>

fun isAccountChanged :: "thrown \<Rightarrow> bool" where
  "isAccountChanged (JsError message) =
     (str_includes message ''account changed'' \<or> str_includes message ''Account changed'')"
| "isAccountChanged JsOther = False"

text \<open>
  The \<open>while (retries > 0)\<close> loop of onConnectWallet, from the state in which
  \<open>retries\<close> attempts are left; \<open>stakeAddresses\<close> starts as the empty list. A rejection
  that leaves the loop (the \<open>throw error\<close>, or one raised inside the catch block by the
  second enable or the final query) is the \<open>Inl\<close> result.
\<close>

function rewardLoop ::
  "env \<Rightarrow> string \<Rightarrow> handle \<Rightarrow> nat \<Rightarrow> component \<Rightarrow> (thrown + string list) \<times> component" where
  "rewardLoop e wn api retries s =
     (if retries > 0 then
        (case callGetRewardAddresses e api s of
           (Inr stakeAddresses, s1) \<Rightarrow> (Inr stakeAddresses, s1)
         | (Inl error, s1) \<Rightarrow>
             (if isAccountChanged error then
                (if retries - 1 > 0 then rewardLoop e wn api (retries - 1) (delay 500 s1)
                 else
                   (case callEnable e wn s1 of
                      (Inl error2, s2) \<Rightarrow> (Inl error2, s2)
                    | (Inr newWalletApi, s2) \<Rightarrow>
                        callGetRewardAddresses e newWalletApi (delay 200 s2)))
              else (Inl error, s1)))
      else (Inr [], s))"
  by pat_completeness auto
termination
  by (relation "measure (\<lambda>(e, wn, api, retries, s). retries)") auto

text \<open>
  The reward-address fetch as onConnectWallet starts it:
  \<open>let stakeAddresses = []; let retries = 3; while (retries > 0) ...\<close>
\<close>

definition fetchRewardAddresses ::
  "env \<Rightarrow> string \<Rightarrow> handle \<Rightarrow> component \<Rightarrow> (thrown + string list) \<times> component" where
  "fetchRewardAddresses e wn api s = rewardLoop e wn api 3 s"

text \<open>\<open>stakeAddresses?.[0] || null\<close>: the empty string is falsy.\<close>

definition firstStakeAddress :: "string list \<Rightarrow> string option" where
  "firstStakeAddress stakeAddresses =
     (case stakeAddresses of
        [] \<Rightarrow> None
      | a # _ \<Rightarrow> if a = [] then None else Some a)"

definition notInstalledMessage :: "string \<Rightarrow> string" where
  "notInstalledMessage wn =
     wn @ '' wallet is not installed. Please install it from the official website.''"

definition expectedNetwork :: "props \<Rightarrow> string" where
  "expectedNetwork p = (if networkType p = MAINNET then ''Mainnet'' else ''Testnet'')"

definition expectedNetworkId :: "props \<Rightarrow> int" where
  "expectedNetworkId p = (if networkType p = MAINNET then 1 else 0)"

text \<open>\<open>error instanceof Error ? error.message : "Unknown error"\<close>\<close>

fun messageOf :: "thrown \<Rightarrow> string" where
  "messageOf (JsError message) = message"
| "messageOf JsOther = ''Unknown error''"

text \<open>The outer catch block of onConnectWallet.\<close>

definition connectCatch :: "string \<Rightarrow> thrown \<Rightarrow> component \<Rightarrow> component" where
  "connectCatch wn error s =
     s\<lparr>console := console s @ [''Error connecting to '' @ wn @ '':''],
       connectionError := Some (''Error connecting to '' @ wn @ '': '' @ messageOf error)\<rparr>"

text \<open>The finally block of onConnectWallet; it also runs after the early returns.\<close>

definition connectFinally :: "component \<Rightarrow> component" where
  "connectFinally s = s\<lparr>isConnecting := False, pendingWallet := None\<rparr>"

text \<open>The three state updates onConnectWallet starts with.\<close>

definition connectBegin :: "string \<Rightarrow> component \<Rightarrow> component" where
  "connectBegin wn s =
     s\<lparr>isConnecting := True, connectionError := None, pendingWallet := Some wn\<rparr>"

text \<open>
  onConnectWallet, run to completion. \<open>now\<close> is what \<open>Date.now()\<close> returns inside
  showErrorOnce (every path calls it at most once). The host's callbacks are taken not
  to throw.
\<close>

definition onConnectWallet :: "props \<Rightarrow> env \<Rightarrow> int \<Rightarrow> string \<Rightarrow> component \<Rightarrow> component" where
  "onConnectWallet p e now wn s0 =
     (let s = connectBegin wn s0
      in connectFinally
        (case cardano e wn of
           None \<Rightarrow> showErrorOnce now (notInstalledMessage wn) s
         | Some _ \<Rightarrow>
            (case callEnable e wn s of
               (Inl error, s1) \<Rightarrow> connectCatch wn error s1
             | (Inr api, s1) \<Rightarrow>
                (case callGetNetworkId e api s1 of
                   (Inl error, s2) \<Rightarrow> connectCatch wn error s2
                 | (Inr walletNetworkId, s2) \<Rightarrow>
                    if walletNetworkId \<noteq> expectedNetworkId p then
                      showErrorOnce now
                        (''Network mismatch: This app requires '' @ expectedNetwork p
                           @ ''. Please switch your wallet network.'') s2
                    else
                      (case fetchRewardAddresses e wn api (delay 100 s2) of
                         (Inl error, s3) \<Rightarrow> connectCatch wn error s3
                       | (Inr stakeAddresses, s3) \<Rightarrow>
                           handleSuccessfulConnect p wn api
                             (firstStakeAddress stakeAddresses) s3)))))"


text \<open>
  The state in which onConnectWallet enters the reward-address loop, when \<open>enable()\<close>
  has returned the handle and the network id has been read: after the state updates, the
  two calls and the wait of 100 ms.
\<close>

definition beforeFetch :: "env \<Rightarrow> string \<Rightarrow> handle \<Rightarrow> component \<Rightarrow> component" where
  "beforeFetch e wn api s0 =
     delay 100 (snd (callGetNetworkId e api (snd (callEnable e wn (connectBegin wn s0)))))"

text \<open>
  The two tests of onConnectError, on the lower-cased message of the error the external
  wallet list reports.
\<close>

definition mentionsNotInstalled :: "string \<Rightarrow> bool" where
  "mentionsNotInstalled errorMessage =
     (str_includes errorMessage ''not installed'' \<or>
      str_includes errorMessage ''not found'' \<or>
      str_includes errorMessage ''not available'' \<or>
      str_includes errorMessage ''no wallet'')"

definition mentionsWrongNetwork :: "string \<Rightarrow> bool" where
  "mentionsWrongNetwork errorMessage =
     (str_includes errorMessage ''wrong network'' \<or>
      str_includes errorMessage ''network type'' \<or>
      str_includes errorMessage ''mainnet'' \<or>
      str_includes errorMessage ''testnet'')"

text \<open>onConnectError, the failure callback handed to the external wallet list.\<close>

definition onConnectError :: "props \<Rightarrow> int \<Rightarrow> string \<Rightarrow> string \<Rightarrow> component \<Rightarrow> component" where
  "onConnectError p now wn message s0 =
     (let s = s0\<lparr>console := console s0 @ [''ConnectWalletList error for '' @ wn @ '':'']\<rparr>;
          errorMessage = toLowerCase message;
          s' =
            (if mentionsNotInstalled errorMessage
             then showErrorOnce now (notInstalledMessage wn) s
             else if mentionsWrongNetwork errorMessage
             then
               (let m = ''Network mismatch: This app requires '' @ expectedNetwork p
                          @ ''. Please switch your wallet to '' @ expectedNetwork p
                          @ '' and try again.''
                in (showErrorOnce now m s)\<lparr>connectionError := Some m\<rparr>)
             else
               (showErrorOnce now (''Error connecting to '' @ wn @ '': '' @ message) s)
                 \<lparr>connectionError := Some (''Error with '' @ wn @ '': '' @ message)\<rparr>)
      in s'\<lparr>isConnecting := False, pendingWallet := None\<rparr>)"

subsection \<open>The component as a machine\<close>

text \<open>
  What can happen to the component: the user's clicks, the external wallet list's two
  callbacks (each with the clock value its notification would read), and the host
  calling \<open>disconnect\<close> through the ref or the Disconnect button.
\<close>

datatype command =
    OpenWalletList
  | CloseWalletList
  | ClickOutside
  | ConnectWallet int string
  | ConnectError int string string
  | Disconnect

fun step :: "props \<Rightarrow> env \<Rightarrow> component \<Rightarrow> command \<Rightarrow> component" where
  "step p e s OpenWalletList = openWalletList p s"
| "step p e s CloseWalletList = closeWalletList s"
| "step p e s ClickOutside = handleClickOutside p s"
| "step p e s (ConnectWallet now wn) = onConnectWallet p e now wn s"
| "step p e s (ConnectError now wn message) = onConnectError p now wn message s"
| "step p e s Disconnect = handleDisconnect p s"

definition run :: "props \<Rightarrow> env \<Rightarrow> command list \<Rightarrow> component" where
  "run p e cmds = foldl (step p e) (initial p) cmds"

text \<open>
  The shape a wallet state is expected to keep: a handle and a wallet name exactly when
  connected, a stake address only when connected.
\<close>

definition walletOk :: "WalletState \<Rightarrow> bool" where
  "walletOk ws = ((walletApi ws \<noteq> None) = isConnected ws \<and>
                  (walletName ws \<noteq> None) = isConnected ws \<and>
                  (isConnected ws \<or> stakeAddress ws = None))"

subsection \<open>A host and some providers to run the component against\<close>

text \<open>The host of App.tsx (dropdown, test network), with the callbacks supplied.\<close>

definition demo_props :: props where
  "demo_props =
     \<lparr>listLayout = Dropdown, initiallyOpen = False, networkType = TESTNET,
      has_onConnect = True, has_onDisconnect = True, has_navigateOnConnect = False\<rparr>"

text \<open>
  One installed provider, \<open>beta\<close>, whose n-th enable returns handle n; every handle is
  on the network \<open>nid\<close> and answers the reward-address query as \<open>rewards\<close> says.
\<close>

definition demo_env :: "int \<Rightarrow> (handle \<Rightarrow> (string list) stub) \<Rightarrow> env" where
  "demo_env nid rewards =
     \<lparr>cardano = [''beta'' \<mapsto> (\<lambda>n. Inr n)],
      getNetworkId = (\<lambda>h n. Inr nid),
      getRewardAddresses = rewards\<rparr>"

definition always :: "thrown + string list \<Rightarrow> handle \<Rightarrow> (string list) stub" where
  "always r h n = r"

text \<open>Handle 0 rejects every query with the given message, the other handles answer.\<close>

definition first_handle_fails :: "string \<Rightarrow> string list \<Rightarrow> handle \<Rightarrow> (string list) stub" where
  "first_handle_fails message addrs h n = (if h = 0 then Inl (JsError message) else Inr addrs)"

text \<open>Every handle rejects its first \<open>k\<close> queries with the given message, then answers.\<close>

definition fails_then_succeeds ::
  "nat \<Rightarrow> string \<Rightarrow> string list \<Rightarrow> handle \<Rightarrow> (string list) stub" where
  "fails_then_succeeds k message addrs h n = (if n < k then Inl (JsError message) else Inr addrs)"

section \<open>Properties\<close>

subsection \<open>The retry loop, one iteration at a time\<close>

declare rewardLoop.simps [simp del]

lemma rewardLoop_ok:
  "0 < retries \<Longrightarrow> getRewardAddresses e api (rewardCount s api) = Inr xs \<Longrightarrow>
   rewardLoop e wn api retries s = (Inr xs, snd (callGetRewardAddresses e api s))"
  by (subst rewardLoop.simps) (simp add: callGetRewardAddresses_def)

lemma rewardLoop_retry:
  "1 < retries \<Longrightarrow> getRewardAddresses e api (rewardCount s api) = Inl err \<Longrightarrow>
   isAccountChanged err \<Longrightarrow>
   rewardLoop e wn api retries s =
     rewardLoop e wn api (retries - 1) (delay 500 (snd (callGetRewardAddresses e api s)))"
  by (subst rewardLoop.simps) (simp add: callGetRewardAddresses_def)

lemma rewardLoop_last:
  "getRewardAddresses e api (rewardCount s api) = Inl err \<Longrightarrow> isAccountChanged err \<Longrightarrow>
   rewardLoop e wn api (Suc 0) s =
     (case callEnable e wn (snd (callGetRewardAddresses e api s)) of
        (Inl error2, s2) \<Rightarrow> (Inl error2, s2)
      | (Inr newWalletApi, s2) \<Rightarrow> callGetRewardAddresses e newWalletApi (delay 200 s2))"
  by (subst rewardLoop.simps) (simp add: callGetRewardAddresses_def)

lemma rewardLoop_throw:
  "0 < retries \<Longrightarrow> getRewardAddresses e api (rewardCount s api) = Inl err \<Longrightarrow>
   \<not> isAccountChanged err \<Longrightarrow>
   rewardLoop e wn api retries s = (Inl err, snd (callGetRewardAddresses e api s))"
  by (subst rewardLoop.simps) (simp add: callGetRewardAddresses_def)

lemma snd_callGetRewardAddresses:
  "snd (callGetRewardAddresses e api s) =
     s\<lparr>calls := calls s @ [GetRewardAddresses api],
       rewardCount := (rewardCount s)(api := Suc (rewardCount s api))\<rparr>"
  by (simp add: callGetRewardAddresses_def)

lemma fetch_two_transient:
  assumes a0: "getRewardAddresses e api (rewardCount s api) = Inl e0" "isAccountChanged e0"
      and a1: "getRewardAddresses e api (Suc (rewardCount s api)) = Inl e1" "isAccountChanged e1"
  shows "fetchRewardAddresses e wn api s =
           rewardLoop e wn api (Suc 0)
             (s\<lparr>calls := calls s @ [GetRewardAddresses api, Delay 500,
                                     GetRewardAddresses api, Delay 500],
                rewardCount := (rewardCount s)(api := Suc (Suc (rewardCount s api)))\<rparr>)"
proof -
  let ?s1 = "delay 500 (snd (callGetRewardAddresses e api s))"
  have c1: "rewardCount ?s1 api = Suc (rewardCount s api)"
    by (simp add: delay_def snd_callGetRewardAddresses)
  have "fetchRewardAddresses e wn api s = rewardLoop e wn api 2 ?s1"
    unfolding fetchRewardAddresses_def using rewardLoop_retry [of 3 e api s e0 wn] a0 by simp
  also have "\<dots> = rewardLoop e wn api (Suc 0) (delay 500 (snd (callGetRewardAddresses e api ?s1)))"
    using rewardLoop_retry [of 2 e api ?s1 e1 wn] a1 c1 by simp
  also have "delay 500 (snd (callGetRewardAddresses e api ?s1)) =
      s\<lparr>calls := calls s @ [GetRewardAddresses api, Delay 500, GetRewardAddresses api, Delay 500],
        rewardCount := (rewardCount s)(api := Suc (Suc (rewardCount s api)))\<rparr>"
    by (simp add: delay_def snd_callGetRewardAddresses)
  finally show ?thesis .
qed

lemma fetch_three_transient:
  assumes a0: "getRewardAddresses e api (rewardCount s api) = Inl e0" "isAccountChanged e0"
      and a1: "getRewardAddresses e api (Suc (rewardCount s api)) = Inl e1" "isAccountChanged e1"
      and a2: "getRewardAddresses e api (Suc (Suc (rewardCount s api))) = Inl e2" "isAccountChanged e2"
      and reg: "cardano e wn = Some en"
  shows "fetchRewardAddresses e wn api s =
     (let s3 = s\<lparr>calls := calls s @ [GetRewardAddresses api, Delay 500, GetRewardAddresses api,
                                      Delay 500, GetRewardAddresses api, Enable wn],
                  rewardCount := (rewardCount s)(api := Suc (Suc (Suc (rewardCount s api)))),
                  enableCount := (enableCount s)(wn := Suc (enableCount s wn))\<rparr>
      in case en (enableCount s wn) of
           Inl error2 \<Rightarrow> (Inl error2, s3)
         | Inr newWalletApi \<Rightarrow>
             (getRewardAddresses e newWalletApi (rewardCount s3 newWalletApi),
              s3\<lparr>calls := calls s3 @ [Delay 200, GetRewardAddresses newWalletApi],
                 rewardCount := (rewardCount s3)(newWalletApi := Suc (rewardCount s3 newWalletApi))\<rparr>))"
proof -
  let ?s2 = "s\<lparr>calls := calls s @ [GetRewardAddresses api, Delay 500,
                                     GetRewardAddresses api, Delay 500],
                rewardCount := (rewardCount s)(api := Suc (Suc (rewardCount s api)))\<rparr>"
  have "fetchRewardAddresses e wn api s = rewardLoop e wn api (Suc 0) ?s2"
    using fetch_two_transient [OF a0 a1] .
  also have "\<dots> = (case callEnable e wn (snd (callGetRewardAddresses e api ?s2)) of
        (Inl error2, s2) \<Rightarrow> (Inl error2, s2)
      | (Inr newWalletApi, s2) \<Rightarrow> callGetRewardAddresses e newWalletApi (delay 200 s2))"
    using rewardLoop_last [of e api ?s2 e2 wn] a2 by simp
  finally show ?thesis
    by (cases s) (simp add: callEnable_def reg callGetRewardAddresses_def delay_def Let_def
             split: sum.splits)
qed

lemma isAccountChanged_lower: "str_includes m ''account changed'' \<Longrightarrow> isAccountChanged (JsError m)"
  by simp

lemma calls_rewardLoop:
  "\<exists>rest. calls (snd (rewardLoop e wn api retries s)) = calls s @ rest"
proof (induction e wn api retries s rule: rewardLoop.induct)
  case (1 e wn api retries s)
  show ?case
  proof (cases "0 < retries")
    case False
    then show ?thesis by (simp add: rewardLoop.simps)
  next
    case pos: True
    show ?thesis
    proof (cases "getRewardAddresses e api (rewardCount s api)")
      case (Inr xs)
      then show ?thesis using pos by (simp add: rewardLoop_ok snd_callGetRewardAddresses)
    next
      case (Inl err)
      show ?thesis
      proof (cases "isAccountChanged err")
        case False
        then show ?thesis using pos Inl by (simp add: rewardLoop_throw snd_callGetRewardAddresses)
      next
        case ac: True
        show ?thesis
        proof (cases "1 < retries")
          case True
          let ?s1 = "snd (callGetRewardAddresses e api s)"
          have "callGetRewardAddresses e api s = (Inl err, ?s1)"
            using Inl by (simp add: callGetRewardAddresses_def)
          from "1.IH" [OF pos this [symmetric] refl ac] True
          obtain rest where
            "calls (snd (rewardLoop e wn api (retries - 1) (delay 500 ?s1))) = calls (delay 500 ?s1) @ rest"
            by auto
          then show ?thesis
            using True Inl ac by (simp add: rewardLoop_retry delay_def snd_callGetRewardAddresses)
        next
          case False
          with pos have r: "retries = Suc 0" by simp
          show ?thesis
            unfolding r using Inl ac
            by (simp add: rewardLoop_last callEnable_def callGetRewardAddresses_def delay_def
                     split: option.splits sum.splits)
        qed
      qed
    qed
  qed
qed


lemma lit_includes: "str_includes ''account changed'' ''account changed''"
  by code_simp

lemma lit_includes_cap: "str_includes ''Account changed'' ''Account changed''"
  by code_simp

lemma fetch_recovers_on_fresh_handle:
  assumes a0: "getRewardAddresses e api (rewardCount s api) = Inl e0" "isAccountChanged e0"
      and a1: "getRewardAddresses e api (Suc (rewardCount s api)) = Inl e1" "isAccountChanged e1"
      and a2: "getRewardAddresses e api (Suc (Suc (rewardCount s api))) = Inl e2" "isAccountChanged e2"
      and reg: "cardano e wn = Some en"
      and second: "en (enableCount s wn) = Inr newApi"
      and fresh: "newApi \<noteq> api"
      and final: "getRewardAddresses e newApi (rewardCount s newApi) = Inr addrs"
  shows "fetchRewardAddresses e wn api s =
     (Inr addrs,
      s\<lparr>calls := calls s @ [GetRewardAddresses api, Delay 500, GetRewardAddresses api,
                            Delay 500, GetRewardAddresses api, Enable wn,
                            Delay 200, GetRewardAddresses newApi],
        rewardCount := (rewardCount s)(api := Suc (Suc (Suc (rewardCount s api))),
                                       newApi := Suc (rewardCount s newApi)),
        enableCount := (enableCount s)(wn := Suc (enableCount s wn))\<rparr>)"
  unfolding fetch_three_transient [OF a0 a1 a2 reg]
  using second fresh final by (cases s) (simp add: Let_def)

subsection \<open>What a run can do to the wallet state\<close>

lemma walletState_rewardLoop:
  "walletState (snd (rewardLoop e wn api retries s)) = walletState s"
proof (induction e wn api retries s rule: rewardLoop.induct)
  case (1 e wn api retries s)
  show ?case
  proof (cases "0 < retries")
    case False
    then show ?thesis by (simp add: rewardLoop.simps)
  next
    case pos: True
    show ?thesis
    proof (cases "getRewardAddresses e api (rewardCount s api)")
      case (Inr xs)
      then show ?thesis using pos by (simp add: rewardLoop_ok snd_callGetRewardAddresses)
    next
      case (Inl err)
      show ?thesis
      proof (cases "isAccountChanged err")
        case False
        then show ?thesis using pos Inl by (simp add: rewardLoop_throw snd_callGetRewardAddresses)
      next
        case ac: True
        show ?thesis
        proof (cases "1 < retries")
          case True
          let ?s1 = "snd (callGetRewardAddresses e api s)"
          have "callGetRewardAddresses e api s = (Inl err, ?s1)"
            using Inl by (simp add: callGetRewardAddresses_def)
          from "1.IH" [OF pos this [symmetric] refl ac] True
          have "walletState (snd (rewardLoop e wn api (retries - 1) (delay 500 ?s1)))
                  = walletState (delay 500 ?s1)"
            by auto
          then show ?thesis
            using True Inl ac by (simp add: rewardLoop_retry delay_def snd_callGetRewardAddresses)
        next
          case False
          with pos have r: "retries = Suc 0" by simp
          show ?thesis
            unfolding r using Inl ac
            by (simp add: rewardLoop_last callEnable_def callGetRewardAddresses_def delay_def
                     split: option.splits sum.splits)
        qed
      qed
    qed
  qed
qed

lemma walletState_showErrorOnce [simp]:
  "walletState (showErrorOnce now m s) = walletState s"
  by (simp add: showErrorOnce_def)

lemma walletState_connectCatch [simp]:
  "walletState (connectCatch wn err s) = walletState s"
  by (simp add: connectCatch_def)

lemma walletState_connectFinally [simp]:
  "walletState (connectFinally s) = walletState s"
  by (simp add: connectFinally_def)

lemma walletState_handleSuccessfulConnect [simp]:
  "walletState (handleSuccessfulConnect p wn api stake s) =
     \<lparr>isConnected = True, walletName = Some wn, walletApi = Some api, stakeAddress = stake\<rparr>"
  by (simp add: handleSuccessfulConnect_def Let_def)

lemma walletState_fetch [simp]:
  "walletState (snd (fetchRewardAddresses e wn api s)) = walletState s"
  by (simp add: fetchRewardAddresses_def walletState_rewardLoop)

lemma walletState_onConnectWallet:
  "walletState (onConnectWallet p e now wn s) = walletState s \<or>
   (\<exists>api addrs. walletState (onConnectWallet p e now wn s) =
      \<lparr>isConnected = True, walletName = Some wn, walletApi = Some api,
       stakeAddress = firstStakeAddress addrs\<rparr>)"
proof (cases "cardano e wn")
  case None
  then show ?thesis by (simp add: onConnectWallet_def connectBegin_def)
next
  case (Some en)
  define s0 where "s0 = connectBegin wn s"
  have w0: "walletState s0 = walletState s" by (simp add: s0_def connectBegin_def)
  obtain r1 s1 where c1: "callEnable e wn s0 = (r1, s1)" by (cases "callEnable e wn s0")
  have w1: "walletState s1 = walletState s"
    using c1 w0 Some by (auto simp: callEnable_def)
  show ?thesis
  proof (cases r1)
    case (Inl err)
    then show ?thesis
      by (simp add: onConnectWallet_def Some c1 w1 flip: s0_def)
  next
    case (Inr api)
    obtain r2 s2 where c2: "callGetNetworkId e api s1 = (r2, s2)"
      by (cases "callGetNetworkId e api s1")
    have w2: "walletState s2 = walletState s"
      using c2 w1 by (auto simp: callGetNetworkId_def)
    define s2' where "s2' = delay 100 s2"
    have w2': "walletState s2' = walletState s" by (simp add: s2'_def delay_def w2)
    show ?thesis
    proof (cases r2)
      case (Inl err)
      then show ?thesis
        by (simp add: onConnectWallet_def Some c1 Inr c2 w2 flip: s0_def)
    next
      case nid: (Inr walletNetworkId)
      obtain r3 s3 where c3: "fetchRewardAddresses e wn api s2' = (r3, s3)"
        by (cases "fetchRewardAddresses e wn api s2'")
      have w3: "walletState s3 = walletState s"
        using walletState_fetch [of e wn api s2'] c3 w2' by simp
      show ?thesis
        by (cases r3)
           (auto simp add: onConnectWallet_def Some c1 Inr c2 nid c3 w2 w3 simp flip: s0_def s2'_def)
    qed
  qed
qed

lemma walletOk_step: "walletOk (walletState s) \<Longrightarrow> walletOk (walletState (step p e s c))"
proof (cases c)
  case (ConnectWallet now wn)
  assume "walletOk (walletState s)"
  then show ?thesis
    using walletState_onConnectWallet [of p e now wn s] ConnectWallet
    by (auto simp: walletOk_def)
next
  case (ConnectError now wn message)
  assume "walletOk (walletState s)"
  then show ?thesis using ConnectError
    by (simp add: onConnectError_def Let_def)
qed (auto simp add: openWalletList_def closeWalletList_def handleClickOutside_def
        handleDisconnect_def Let_def walletOk_def disconnectedWallet_def)

lemma walletOk_foldl: "walletOk (walletState s) \<Longrightarrow> walletOk (walletState (foldl (step p e) s cmds))"
  by (induction cmds arbitrary: s) (simp_all add: walletOk_step)

lemma walletOk_run: "walletOk (walletState (run p e cmds))"
  unfolding run_def
  by (rule walletOk_foldl) (simp add: initial_def walletOk_def disconnectedWallet_def)

lemma firstStakeAddress_None:
  "(firstStakeAddress addrs = None) = (addrs = [] \<or> hd addrs = [])"
  by (simp add: firstStakeAddress_def split: list.splits)

lemma walletState_beforeFetch:
  "walletState (beforeFetch e wn api s) = walletState s"
  by (simp add: beforeFetch_def delay_def callGetNetworkId_def callEnable_def connectBegin_def
           split: option.splits)

lemma walletState_onConnectWallet_cases:
  "walletState (onConnectWallet p e now wn s) =
     (case cardano e wn of
        None \<Rightarrow> walletState s
      | Some en \<Rightarrow>
         (case en (enableCount s wn) of
            Inl _ \<Rightarrow> walletState s
          | Inr api \<Rightarrow>
             (case getNetworkId e api (networkCount s api) of
                Inl _ \<Rightarrow> walletState s
              | Inr nid \<Rightarrow>
                 if nid \<noteq> expectedNetworkId p then walletState s
                 else
                   (case fst (fetchRewardAddresses e wn api (beforeFetch e wn api s)) of
                      Inl _ \<Rightarrow> walletState s
                    | Inr addrs \<Rightarrow>
                        \<lparr>isConnected = True, walletName = Some wn, walletApi = Some api,
                         stakeAddress = firstStakeAddress addrs\<rparr>))))"
proof (cases "cardano e wn")
  case None
  then show ?thesis by (simp add: onConnectWallet_def connectBegin_def)
next
  case (Some en)
  define s0 where "s0 = connectBegin wn s"
  define s1 where "s1 = snd (callEnable e wn s0)"
  have w1: "walletState s1 = walletState s"
    using Some by (simp add: s1_def s0_def callEnable_def connectBegin_def)
  have nc: "networkCount s1 = networkCount s"
    using Some by (simp add: s1_def s0_def callEnable_def connectBegin_def)
  have c1: "callEnable e wn s0 = (en (enableCount s wn), s1)"
    using Some by (simp add: s1_def s0_def callEnable_def connectBegin_def)
  show ?thesis
  proof (cases "en (enableCount s wn)")
    case (Inl err)
    then show ?thesis
      by (simp add: onConnectWallet_def Some c1 w1 flip: s0_def)
  next
    case (Inr api)
    define s2 where "s2 = snd (callGetNetworkId e api s1)"
    have w2: "walletState s2 = walletState s"
      by (simp add: s2_def callGetNetworkId_def w1)
    have c2: "callGetNetworkId e api s1 = (getNetworkId e api (networkCount s api), s2)"
      by (simp add: s2_def callGetNetworkId_def nc)
    have bf: "delay 100 s2 = beforeFetch e wn api s"
      by (simp add: beforeFetch_def s2_def s1_def s0_def)
    show ?thesis
    proof (cases "getNetworkId e api (networkCount s api)")
      case (Inl err)
      then show ?thesis
        by (simp add: onConnectWallet_def Some c1 Inr c2 w2 flip: s0_def)
    next
      case nid: (Inr walletNetworkId)
      obtain r3 s3 where c3: "fetchRewardAddresses e wn api (beforeFetch e wn api s) = (r3, s3)"
        by (cases "fetchRewardAddresses e wn api (beforeFetch e wn api s)")
      have w3: "walletState s3 = walletState s"
        using walletState_fetch [of e wn api "beforeFetch e wn api s"] c3
        by (simp add: walletState_beforeFetch)
      show ?thesis
        by (cases r3)
           (simp_all add: onConnectWallet_def Some c1 Inr c2 nid bf c3 w2 w3 flip: s0_def)
    qed
  qed
qed

lemma recovered_fetch_value:
  "fst (fetchRewardAddresses (demo_env 0 (first_handle_fails ''account changed'' [''stake1abc'']))
          ''beta'' 0
          (beforeFetch (demo_env 0 (first_handle_fails ''account changed'' [''stake1abc'']))
             ''beta'' 0 (initial demo_props)))
     = Inr [''stake1abc'']"
  by code_simp

lemma empty_fetch_value:
  "fst (fetchRewardAddresses (demo_env 0 (always (Inr []))) ''beta'' 0
          (beforeFetch (demo_env 0 (always (Inr []))) ''beta'' 0 (initial demo_props)))
     = Inr []"
  by code_simp

subsection \<open>What reaches showError, and what a connect attempt calls\<close>

lemma shown_showErrorOnce:
  "shown (showErrorOnce now m s) =
     (if shouldShow (lastErrorRef s) now m then shown s @ [m] else shown s)"
  by (simp add: showErrorOnce_def)

lemma lastErrorRef_showErrorOnce:
  "lastErrorRef (showErrorOnce now m s) =
     (if shouldShow (lastErrorRef s) now m then Some (m, now) else lastErrorRef s)"
  by (simp add: showErrorOnce_def)

lemma connectionError_showErrorOnce:
  "connectionError (showErrorOnce now m s) = connectionError s"
  by (simp add: showErrorOnce_def)

lemma onConnectWallet_not_installed:
  "cardano e wn = None \<Longrightarrow>
   onConnectWallet p e now wn s =
     connectFinally (showErrorOnce now (notInstalledMessage wn) (connectBegin wn s))"
  by (simp add: onConnectWallet_def)

lemma onConnectWallet_wrong_network:
  assumes reg: "cardano e wn = Some en"
      and first: "en (enableCount s wn) = Inr api"
      and net: "getNetworkId e api (networkCount s api) = Inr nid"
      and wrong: "nid \<noteq> expectedNetworkId p"
  shows "shown (onConnectWallet p e now wn s) =
           (if shouldShow (lastErrorRef s) now
                 (''Network mismatch: This app requires '' @ expectedNetwork p
                    @ ''. Please switch your wallet network.'')
            then shown s @ [''Network mismatch: This app requires '' @ expectedNetwork p
                    @ ''. Please switch your wallet network.'']
            else shown s)"
proof -
  define s0 where "s0 = connectBegin wn s"
  define s1 where "s1 = snd (callEnable e wn s0)"
  define s2 where "s2 = snd (callGetNetworkId e api s1)"
  have en: "callEnable e wn s0 = (Inr api, s1)"
    using reg first by (simp add: s1_def s0_def callEnable_def connectBegin_def)
  have nc: "networkCount s1 = networkCount s"
    using reg by (simp add: s1_def s0_def callEnable_def connectBegin_def)
  have nid: "callGetNetworkId e api s1 = (Inr nid, s2)"
    using net by (simp add: s2_def callGetNetworkId_def nc)
  have keep: "shown s2 = shown s" "lastErrorRef s2 = lastErrorRef s"
    using reg by (simp_all add: s2_def s1_def s0_def callGetNetworkId_def callEnable_def connectBegin_def)
  show ?thesis
    using wrong
    by (simp add: onConnectWallet_def reg Let_def en nid connectFinally_def
                  shown_showErrorOnce keep flip: s0_def)
qed






lemma wrong_network_text_class:
  "\<not> mentionsNotInstalled (toLowerCase ''Wrong network'')"
  "mentionsWrongNetwork (toLowerCase ''Wrong network'')"
  by code_simp+

lemma not_found_text_class:
  "mentionsNotInstalled (toLowerCase ''Wallet not found'')"
  by code_simp

lemma declined_text_class:
  "\<not> mentionsNotInstalled (toLowerCase ''user declined'')"
  "\<not> mentionsWrongNetwork (toLowerCase ''user declined'')"
  by code_simp+

subsection \<open>The session's fields\<close>

text \<open>
  Claim C1, as the code has it. After every sequence of clicks, callbacks and
  disconnects the handle is present exactly when the session is connected, and a stake
  address is present only when it is connected. A negotiation succeeds exactly when the
  provider is installed, \<open>enable()\<close> returns a handle, the network id is the
  expected one and the reward-address fetch, with its retries and its second enable,
  returns a list. It then connects with the first address of that list as stake address,
  and with none when the list is empty or starts with the empty string. Every other
  negotiation leaves the wallet state as it was.
\<close>

theorem session_fields_invariant:
  "(walletApi (walletState (run p e cmds)) \<noteq> None) = isConnected (walletState (run p e cmds))
   \<and> (isConnected (walletState (run p e cmds))
        \<or> stakeAddress (walletState (run p e cmds)) = None)
   \<and> (cardano e wn = Some en \<and> en (enableCount s wn) = Inr api
        \<and> getNetworkId e api (networkCount s api) = Inr (expectedNetworkId p)
        \<and> fst (fetchRewardAddresses e wn api (beforeFetch e wn api s)) = Inr addrs
       \<longrightarrow> walletState (onConnectWallet p e now wn s) =
             \<lparr>isConnected = True, walletName = Some wn, walletApi = Some api,
              stakeAddress = firstStakeAddress addrs\<rparr>)
   \<and> (\<not> (\<exists>en api addrs.
            cardano e wn = Some en \<and> en (enableCount s wn) = Inr api
            \<and> getNetworkId e api (networkCount s api) = Inr (expectedNetworkId p)
            \<and> fst (fetchRewardAddresses e wn api (beforeFetch e wn api s)) = Inr addrs)
       \<longrightarrow> walletState (onConnectWallet p e now wn s) = walletState s)
   \<and> (firstStakeAddress addrs = None) = (addrs = [] \<or> hd addrs = [])"
proof -
  have inv: "(walletApi (walletState (run p e cmds)) \<noteq> None) = isConnected (walletState (run p e cmds))"
       "isConnected (walletState (run p e cmds)) \<or> stakeAddress (walletState (run p e cmds)) = None"
    using walletOk_run [of p e cmds] by (simp_all add: walletOk_def)
  have ok: "walletState (onConnectWallet p e now wn s) =
             \<lparr>isConnected = True, walletName = Some wn, walletApi = Some api,
              stakeAddress = firstStakeAddress addrs\<rparr>"
    if "cardano e wn = Some en" "en (enableCount s wn) = Inr api"
       "getNetworkId e api (networkCount s api) = Inr (expectedNetworkId p)"
       "fst (fetchRewardAddresses e wn api (beforeFetch e wn api s)) = Inr addrs"
    using that by (simp add: walletState_onConnectWallet_cases)
  have fail: "walletState (onConnectWallet p e now wn s) = walletState s"
    if "\<not> (\<exists>en api addrs.
            cardano e wn = Some en \<and> en (enableCount s wn) = Inr api
            \<and> getNetworkId e api (networkCount s api) = Inr (expectedNetworkId p)
            \<and> fst (fetchRewardAddresses e wn api (beforeFetch e wn api s)) = Inr addrs)"
    using that
    by (auto simp add: walletState_onConnectWallet_cases split: option.splits sum.splits)
  show ?thesis
    using inv ok fail firstStakeAddress_None [of addrs] by blast
qed

text \<open>
  A run that connects and disconnects; a negotiation that succeeds only after the three
  attempts and the second enable; one whose provider reports no address; one for a
  provider that is not installed.
\<close>

theorem session_fields_invariant_witness:
  "(walletApi (walletState (run demo_props (demo_env 0 (always (Inr [''stake1abc''])))
                               [OpenWalletList, ConnectWallet 0 ''beta'', Disconnect])) \<noteq> None)
     = isConnected (walletState (run demo_props (demo_env 0 (always (Inr [''stake1abc''])))
                               [OpenWalletList, ConnectWallet 0 ''beta'', Disconnect]))
   \<and> walletState (onConnectWallet demo_props
        (demo_env 0 (first_handle_fails ''account changed'' [''stake1abc'']))
        0 ''beta'' (initial demo_props))
     = \<lparr>isConnected = True, walletName = Some ''beta'', walletApi = Some 0,
        stakeAddress = Some ''stake1abc''\<rparr>
   \<and> walletState (onConnectWallet demo_props (demo_env 0 (always (Inr [])))
        0 ''beta'' (initial demo_props))
     = \<lparr>isConnected = True, walletName = Some ''beta'', walletApi = Some 0,
        stakeAddress = None\<rparr>
   \<and> walletState (onConnectWallet demo_props (demo_env 0 (always (Inr [])))
        0 ''alpha'' (initial demo_props))
     = walletState (initial demo_props)"
proof -
  let ?E = "demo_env 0 (first_handle_fails ''account changed'' [''stake1abc''])"
  let ?F = "demo_env 0 (always (Inr []))"
  let ?G = "demo_env 0 (always (Inr [''stake1abc'']))"
  let ?s = "initial demo_props"
  let ?en = "\<lambda>n. Inr n :: thrown + handle"
  have regE: "cardano ?E ''beta'' = Some ?en" and regF: "cardano ?F ''beta'' = Some ?en"
   and absent: "cardano ?F ''alpha'' = None"
    by (simp_all add: demo_env_def)
  have first: "?en (enableCount ?s ''beta'') = Inr 0"
    by (simp add: initial_def)
  have netE: "getNetworkId ?E 0 (networkCount ?s 0) = Inr (expectedNetworkId demo_props)"
   and netF: "getNetworkId ?F 0 (networkCount ?s 0) = Inr (expectedNetworkId demo_props)"
    by (simp_all add: demo_env_def expectedNetworkId_def demo_props_def)
  show ?thesis
    using session_fields_invariant [of demo_props ?G
            "[OpenWalletList, ConnectWallet 0 ''beta'', Disconnect]"
            "''beta''" ?en ?s 0 "[''stake1abc'']" 0]
          session_fields_invariant [of demo_props ?E "[]"
            "''beta''" ?en ?s 0 "[''stake1abc'']" 0]
          session_fields_invariant [of demo_props ?F "[]"
            "''beta''" ?en ?s 0 "[]" 0]
          session_fields_invariant [of demo_props ?F "[]"
            "''alpha''" ?en ?s 0 "[]" 0]
          regE regF absent first netE netF recovered_fetch_value empty_fetch_value
    by (simp add: firstStakeAddress_def)
qed

text \<open>
  The claim as written wants the stake address present in every connected session. A
  provider that reports no reward address gives a connected session without one.
\<close>

theorem connected_without_stake_address_counterexample:
  "isConnected (walletState (run demo_props (demo_env 0 (always (Inr [])))
                               [OpenWalletList, ConnectWallet 0 ''beta'']))
   \<and> walletApi (walletState (run demo_props (demo_env 0 (always (Inr [])))
                               [OpenWalletList, ConnectWallet 0 ''beta''])) = Some 0
   \<and> stakeAddress (walletState (run demo_props (demo_env 0 (always (Inr [])))
                               [OpenWalletList, ConnectWallet 0 ''beta''])) = None"
  by code_simp

subsection \<open>Fetching the reward addresses\<close>

text \<open>
  Claim C2. Let the reward-address query of the handle reject every call with an Error
  whose message contains "account changed", and let the second enable return a handle.
  Then the fetch queries the handle three times, 500 ms apart, enables the provider once
  more, waits 200 ms, queries the new handle once, and returns what that query returned,
  rejected or not, with no further call.
\<close>

theorem fetch_reenables_once_when_exhausted:
  assumes stub: "\<forall>n. \<exists>msg. getRewardAddresses e api n = Inl (JsError msg)
                           \<and> str_includes msg ''account changed''"
      and reg: "cardano e wn = Some en"
      and fresh: "en (enableCount s wn) = Inr newApi"
  shows "fst (fetchRewardAddresses e wn api s) =
           getRewardAddresses e newApi
             (if newApi = api then rewardCount s api + 3 else rewardCount s newApi)
       \<and> calls (snd (fetchRewardAddresses e wn api s)) =
           calls s @ [GetRewardAddresses api, Delay 500, GetRewardAddresses api, Delay 500,
                      GetRewardAddresses api, Enable wn, Delay 200, GetRewardAddresses newApi]
       \<and> enableCount (snd (fetchRewardAddresses e wn api s)) wn = Suc (enableCount s wn)"
proof -
  from stub obtain m0 where a0: "getRewardAddresses e api (rewardCount s api) = Inl (JsError m0)"
    "isAccountChanged (JsError m0)" by (metis isAccountChanged_lower)
  from stub obtain m1 where a1: "getRewardAddresses e api (Suc (rewardCount s api)) = Inl (JsError m1)"
    "isAccountChanged (JsError m1)" by (metis isAccountChanged_lower)
  from stub obtain m2 where a2: "getRewardAddresses e api (Suc (Suc (rewardCount s api))) = Inl (JsError m2)"
    "isAccountChanged (JsError m2)" by (metis isAccountChanged_lower)
  show ?thesis
    by (simp add: fetch_three_transient [OF a0 a1 a2 reg] fresh Let_def numeral_3_eq_3)
qed

text \<open>
  At a provider whose first handle always rejects: started after the first enable, the
  second enable gives handle 1, whose answer is returned; started before any enable, the
  second enable gives the rejecting handle 0 again, and its rejection is returned as it is.
\<close>

theorem fetch_reenables_once_when_exhausted_witness:
  "fst (fetchRewardAddresses
          (demo_env 0 (first_handle_fails ''account changed'' [''stake1abc''])) ''beta'' 0
          (snd (callEnable (demo_env 0 (first_handle_fails ''account changed'' [''stake1abc'']))
                  ''beta'' (initial demo_props))))
     = Inr [''stake1abc'']
   \<and> calls (snd (fetchRewardAddresses
          (demo_env 0 (first_handle_fails ''account changed'' [''stake1abc''])) ''beta'' 0
          (snd (callEnable (demo_env 0 (first_handle_fails ''account changed'' [''stake1abc'']))
                  ''beta'' (initial demo_props)))))
     = [Enable ''beta'', GetRewardAddresses 0, Delay 500, GetRewardAddresses 0, Delay 500,
        GetRewardAddresses 0, Enable ''beta'', Delay 200, GetRewardAddresses 1]
   \<and> fst (fetchRewardAddresses
          (demo_env 0 (first_handle_fails ''account changed'' [''stake1abc''])) ''beta'' 0
          (initial demo_props))
     = Inl (JsError ''account changed'')"
proof -
  let ?E = "demo_env 0 (first_handle_fails ''account changed'' [''stake1abc''])"
  let ?S = "snd (callEnable ?E ''beta'' (initial demo_props))"
  have stub: "\<forall>n. \<exists>msg. getRewardAddresses ?E 0 n = Inl (JsError msg)
                        \<and> str_includes msg ''account changed''"
    using lit_includes by (simp add: demo_env_def first_handle_fails_def)
  have reg: "cardano ?E ''beta'' = Some (\<lambda>n. Inr n)"
    by (simp add: demo_env_def)
  have fresh: "(\<lambda>n. Inr n :: thrown + handle) (enableCount ?S ''beta'') = Inr 1"
    by (simp add: callEnable_def demo_env_def initial_def)
  have same: "(\<lambda>n. Inr n :: thrown + handle) (enableCount (initial demo_props) ''beta'') = Inr 0"
    by (simp add: initial_def)
  show ?thesis
    using fetch_reenables_once_when_exhausted [OF stub reg fresh]
          fetch_reenables_once_when_exhausted [OF stub reg same]
    by (simp add: callEnable_def demo_env_def initial_def first_handle_fails_def)
qed

text \<open>
  Claim C3. If the query rejects twice with an "account changed" message and answers the
  third time, the fetch returns that answer after three queries on the same handle and
  never enables the provider again.
\<close>

theorem fetch_succeeds_on_third_attempt:
  assumes f0: "getRewardAddresses e api (rewardCount s api) = Inl (JsError m0)"
      and c0: "str_includes m0 ''account changed''"
      and f1: "getRewardAddresses e api (rewardCount s api + 1) = Inl (JsError m1)"
      and c1: "str_includes m1 ''account changed''"
      and ok: "getRewardAddresses e api (rewardCount s api + 2) = Inr addrs"
  shows "fst (fetchRewardAddresses e wn api s) = Inr addrs
       \<and> calls (snd (fetchRewardAddresses e wn api s)) =
           calls s @ [GetRewardAddresses api, Delay 500, GetRewardAddresses api, Delay 500,
                      GetRewardAddresses api]
       \<and> enableCount (snd (fetchRewardAddresses e wn api s)) = enableCount s"
proof -
  have a0: "isAccountChanged (JsError m0)" and a1: "isAccountChanged (JsError m1)"
    using c0 c1 by simp_all
  have f1': "getRewardAddresses e api (Suc (rewardCount s api)) = Inl (JsError m1)"
    using f1 by simp
  have ok': "getRewardAddresses e api (Suc (Suc (rewardCount s api))) = Inr addrs"
    using ok by simp
  show ?thesis
    by (simp add: fetch_two_transient [OF f0 a0 f1' a1] rewardLoop_ok ok'
                  snd_callGetRewardAddresses)
qed

theorem fetch_succeeds_on_third_attempt_witness:
  "fst (fetchRewardAddresses
          (demo_env 0 (fails_then_succeeds 2 ''account changed'' [''stake1abc''])) ''beta'' 0
          (initial demo_props))
     = Inr [''stake1abc'']
   \<and> calls (snd (fetchRewardAddresses
          (demo_env 0 (fails_then_succeeds 2 ''account changed'' [''stake1abc''])) ''beta'' 0
          (initial demo_props)))
     = [GetRewardAddresses 0, Delay 500, GetRewardAddresses 0, Delay 500, GetRewardAddresses 0]
   \<and> enableCount (snd (fetchRewardAddresses
          (demo_env 0 (fails_then_succeeds 2 ''account changed'' [''stake1abc''])) ''beta'' 0
          (initial demo_props))) ''beta'' = 0"
proof -
  let ?E = "demo_env 0 (fails_then_succeeds 2 ''account changed'' [''stake1abc''])"
  let ?s = "initial demo_props"
  have f0: "getRewardAddresses ?E 0 (rewardCount ?s 0) = Inl (JsError ''account changed'')"
   and f1: "getRewardAddresses ?E 0 (rewardCount ?s 0 + 1) = Inl (JsError ''account changed'')"
   and ok: "getRewardAddresses ?E 0 (rewardCount ?s 0 + 2) = Inr [''stake1abc'']"
    by (simp_all add: demo_env_def fails_then_succeeds_def initial_def)
  show ?thesis
    using fetch_succeeds_on_third_attempt [OF f0 lit_includes f1 lit_includes ok, of "''beta''"]
    by (simp add: initial_def)
qed

text \<open>
  Claim C4, as the code has it. The test of the catch block is case-sensitive: it looks
  for "account changed" and for "Account changed", in the message of an \<open>Error\<close>.
  A rejection that passes the test is retried after 500 ms while attempts are left, and
  answered with a second enable when the last attempt is used up. Every other rejection,
  among them other capitalisations and values that are not an \<open>Error\<close>, leaves the
  loop at once: one query, no wait, no enable.
\<close>

theorem transient_is_two_spellings:
  assumes pos: "0 < retries"
      and rej: "getRewardAddresses e api (rewardCount s api) = Inl err"
      and reg: "cardano e wn = Some en"
  shows "((\<exists>msg. err = JsError msg \<and>
             (str_includes msg ''account changed'' \<or> str_includes msg ''Account changed''))
          \<and> 1 < retries
          \<longrightarrow> (\<exists>rest. calls (snd (rewardLoop e wn api retries s)) =
                  calls s @ [GetRewardAddresses api, Delay 500, GetRewardAddresses api] @ rest))
       \<and> ((\<exists>msg. err = JsError msg \<and>
             (str_includes msg ''account changed'' \<or> str_includes msg ''Account changed''))
          \<and> retries = 1
          \<longrightarrow> (\<exists>rest. calls (snd (rewardLoop e wn api retries s)) =
                  calls s @ [GetRewardAddresses api, Enable wn] @ rest))
       \<and> (\<not> (\<exists>msg. err = JsError msg \<and>
             (str_includes msg ''account changed'' \<or> str_includes msg ''Account changed''))
          \<longrightarrow> fst (rewardLoop e wn api retries s) = Inl err
            \<and> calls (snd (rewardLoop e wn api retries s)) = calls s @ [GetRewardAddresses api]
            \<and> enableCount (snd (rewardLoop e wn api retries s)) = enableCount s)"
proof -
  have tr: "(\<exists>msg. err = JsError msg \<and>
             (str_includes msg ''account changed'' \<or> str_includes msg ''Account changed''))
            = isAccountChanged err"
    by (cases err) simp_all
  let ?s1 = "snd (callGetRewardAddresses e api s)"
  have retry: "\<exists>rest. calls (snd (rewardLoop e wn api retries s)) =
                  calls s @ [GetRewardAddresses api, Delay 500, GetRewardAddresses api] @ rest"
    if ac: "isAccountChanged err" and many: "1 < retries"
  proof -
    let ?s2 = "delay 500 ?s1"
    have step: "rewardLoop e wn api retries s = rewardLoop e wn api (retries - 1) ?s2"
      using rewardLoop_retry [OF many rej ac] .
    have pos': "0 < retries - 1" using many by simp
    have c: "rewardCount ?s2 api = Suc (rewardCount s api)"
      by (simp add: delay_def snd_callGetRewardAddresses)
    obtain rest where
      rest: "calls (snd (rewardLoop e wn api (retries - 1) (snd (callGetRewardAddresses e api ?s2))))
         = calls (snd (callGetRewardAddresses e api ?s2)) @ rest"
      using calls_rewardLoop by blast
    have next_call: "\<exists>rest. calls (snd (rewardLoop e wn api (retries - 1) ?s2)) =
        calls ?s2 @ [GetRewardAddresses api] @ rest"
    proof (cases "getRewardAddresses e api (rewardCount ?s2 api)")
      case (Inr xs)
      then show ?thesis
        using pos' by (simp add: rewardLoop_ok snd_callGetRewardAddresses)
    next
      case (Inl err2)
      show ?thesis
      proof (cases "isAccountChanged err2")
        case False
        then show ?thesis
          using pos' Inl by (simp add: rewardLoop_throw snd_callGetRewardAddresses)
      next
        case ac2: True
        show ?thesis
        proof (cases "1 < retries - 1")
          case True
          obtain r where "calls (snd (rewardLoop e wn api (retries - 1 - 1)
                 (delay 500 (snd (callGetRewardAddresses e api ?s2))))) =
              calls (delay 500 (snd (callGetRewardAddresses e api ?s2))) @ r"
            using calls_rewardLoop by blast
          then show ?thesis
            using rewardLoop_retry [OF True Inl ac2, of wn]
            by (simp add: delay_def snd_callGetRewardAddresses)
        next
          case False
          with pos' have one: "retries - 1 = Suc 0" by simp
          show ?thesis
            unfolding one using rewardLoop_last [OF Inl ac2, of wn]
            by (simp add: callEnable_def callGetRewardAddresses_def delay_def reg
                     split: sum.splits)
        qed
      qed
    qed
    then show ?thesis
      unfolding step by (simp add: delay_def snd_callGetRewardAddresses)
  qed
  have last: "\<exists>rest. calls (snd (rewardLoop e wn api retries s)) =
                  calls s @ [GetRewardAddresses api, Enable wn] @ rest"
    if ac: "isAccountChanged err" and one: "retries = 1"
    using rewardLoop_last [OF rej ac, of wn] one
    by (simp add: callEnable_def callGetRewardAddresses_def delay_def reg split: sum.splits)
  have throw: "fst (rewardLoop e wn api retries s) = Inl err
            \<and> calls (snd (rewardLoop e wn api retries s)) = calls s @ [GetRewardAddresses api]
            \<and> enableCount (snd (rewardLoop e wn api retries s)) = enableCount s"
    if "\<not> isAccountChanged err"
    using rewardLoop_throw [OF pos rej that, of wn] by (simp add: snd_callGetRewardAddresses)
  show ?thesis
    unfolding tr using retry last throw by blast
qed

theorem transient_is_two_spellings_witness:
  "(\<exists>rest. calls (snd (rewardLoop
        (demo_env 0 (first_handle_fails ''Account changed'' [''stake1abc''])) ''beta'' 0 3
        (initial demo_props)))
      = [GetRewardAddresses 0, Delay 500, GetRewardAddresses 0] @ rest)
   \<and> (\<exists>rest. calls (snd (rewardLoop
        (demo_env 0 (first_handle_fails ''Account changed'' [''stake1abc''])) ''beta'' 0 1
        (initial demo_props)))
      = [GetRewardAddresses 0, Enable ''beta''] @ rest)
   \<and> fst (rewardLoop (demo_env 0 (always (Inl JsOther))) ''beta'' 0 3 (initial demo_props))
      = Inl JsOther
   \<and> calls (snd (rewardLoop (demo_env 0 (always (Inl JsOther))) ''beta'' 0 3
        (initial demo_props)))
      = [GetRewardAddresses 0]"
proof -
  let ?E = "demo_env 0 (first_handle_fails ''Account changed'' [''stake1abc''])"
  let ?F = "demo_env 0 (always (Inl JsOther))"
  let ?s = "initial demo_props"
  have rejE: "getRewardAddresses ?E 0 (rewardCount ?s 0) = Inl (JsError ''Account changed'')"
    by (simp add: demo_env_def first_handle_fails_def)
  have rejF: "getRewardAddresses ?F 0 (rewardCount ?s 0) = Inl JsOther"
    by (simp add: demo_env_def always_def)
  have regE: "cardano ?E ''beta'' = Some (\<lambda>n. Inr n)"
   and regF: "cardano ?F ''beta'' = Some (\<lambda>n. Inr n)"
    by (simp_all add: demo_env_def)
  have three: "0 < (3::nat)" and one: "0 < (1::nat)" by simp_all
  show ?thesis
    using transient_is_two_spellings [OF three rejE regE]
          transient_is_two_spellings [OF one rejE regE]
          transient_is_two_spellings [OF three rejF regF]
          lit_includes_cap
    by (simp add: initial_def)
qed

text \<open>
  The claim as written asks for any mix of upper and lower case. "ACCOUNT CHANGED"
  contains "account changed" once lower-cased, yet the fetch gives up after one query.
\<close>

theorem upper_case_account_changed_counterexample:
  "str_includes (toLowerCase ''ACCOUNT CHANGED'') ''account changed''
   \<and> fst (fetchRewardAddresses
            (demo_env 0 (first_handle_fails ''ACCOUNT CHANGED'' [''stake1abc''])) ''beta'' 0
            (initial demo_props))
       = Inl (JsError ''ACCOUNT CHANGED'')
   \<and> calls (snd (fetchRewardAddresses
            (demo_env 0 (first_handle_fails ''ACCOUNT CHANGED'' [''stake1abc''])) ''beta'' 0
            (initial demo_props)))
       = [GetRewardAddresses 0]"
  by code_simp

subsection \<open>Where a failure is shown and where it is recorded\<close>

text \<open>
  Claim C6, as the code has it. A provider that is not installed is reported through the
  throttle to showError and is not recorded for inline display: onConnectWallet leaves
  \<open>connectionError\<close> empty, and onConnectError leaves it as it was. The failures the
  external wallet list reports as a wrong network or as anything else go through the
  throttle and are recorded as well; for the latter the recorded text starts with
  "Error with" where the text shown starts with "Error connecting to".
\<close>

theorem surfacing_by_category:
  "(cardano e wn = None \<longrightarrow>
      connectionError (onConnectWallet p e now wn s) = None
      \<and> shown (onConnectWallet p e now wn s) =
          (if shouldShow (lastErrorRef s) now (notInstalledMessage wn)
           then shown s @ [notInstalledMessage wn] else shown s))
   \<and> (mentionsNotInstalled (toLowerCase message) \<longrightarrow>
      connectionError (onConnectError p now wn message s) = connectionError s
      \<and> shown (onConnectError p now wn message s) =
          (if shouldShow (lastErrorRef s) now (notInstalledMessage wn)
           then shown s @ [notInstalledMessage wn] else shown s))
   \<and> (\<not> mentionsNotInstalled (toLowerCase message)
        \<and> mentionsWrongNetwork (toLowerCase message) \<longrightarrow>
      connectionError (onConnectError p now wn message s) =
          Some (''Network mismatch: This app requires '' @ expectedNetwork p
                  @ ''. Please switch your wallet to '' @ expectedNetwork p
                  @ '' and try again.'')
      \<and> shown (onConnectError p now wn message s) =
          (if shouldShow (lastErrorRef s) now
                (''Network mismatch: This app requires '' @ expectedNetwork p
                  @ ''. Please switch your wallet to '' @ expectedNetwork p
                  @ '' and try again.'')
           then shown s @ [''Network mismatch: This app requires '' @ expectedNetwork p
                  @ ''. Please switch your wallet to '' @ expectedNetwork p
                  @ '' and try again.'']
           else shown s))
   \<and> (\<not> mentionsNotInstalled (toLowerCase message)
        \<and> \<not> mentionsWrongNetwork (toLowerCase message) \<longrightarrow>
      connectionError (onConnectError p now wn message s) =
          Some (''Error with '' @ wn @ '': '' @ message)
      \<and> shown (onConnectError p now wn message s) =
          (if shouldShow (lastErrorRef s) now (''Error connecting to '' @ wn @ '': '' @ message)
           then shown s @ [''Error connecting to '' @ wn @ '': '' @ message]
           else shown s))"
proof -
  have a: "connectionError (onConnectWallet p e now wn s) = None
      \<and> shown (onConnectWallet p e now wn s) =
          (if shouldShow (lastErrorRef s) now (notInstalledMessage wn)
           then shown s @ [notInstalledMessage wn] else shown s)"
    if "cardano e wn = None"
    by (simp add: onConnectWallet_not_installed [OF that] connectFinally_def
                  shown_showErrorOnce connectionError_showErrorOnce connectBegin_def)
  have b: "connectionError (onConnectError p now wn message s) = connectionError s
      \<and> shown (onConnectError p now wn message s) =
          (if shouldShow (lastErrorRef s) now (notInstalledMessage wn)
           then shown s @ [notInstalledMessage wn] else shown s)"
    if "mentionsNotInstalled (toLowerCase message)"
    using that
    by (simp add: onConnectError_def Let_def shown_showErrorOnce connectionError_showErrorOnce)
  have c: "connectionError (onConnectError p now wn message s) =
          Some (''Network mismatch: This app requires '' @ expectedNetwork p
                  @ ''. Please switch your wallet to '' @ expectedNetwork p
                  @ '' and try again.'')
      \<and> shown (onConnectError p now wn message s) =
          (if shouldShow (lastErrorRef s) now
                (''Network mismatch: This app requires '' @ expectedNetwork p
                  @ ''. Please switch your wallet to '' @ expectedNetwork p
                  @ '' and try again.'')
           then shown s @ [''Network mismatch: This app requires '' @ expectedNetwork p
                  @ ''. Please switch your wallet to '' @ expectedNetwork p
                  @ '' and try again.'']
           else shown s)"
    if "\<not> mentionsNotInstalled (toLowerCase message)" "mentionsWrongNetwork (toLowerCase message)"
    using that
    by (simp add: onConnectError_def Let_def shown_showErrorOnce)
  have d: "connectionError (onConnectError p now wn message s) =
          Some (''Error with '' @ wn @ '': '' @ message)
      \<and> shown (onConnectError p now wn message s) =
          (if shouldShow (lastErrorRef s) now (''Error connecting to '' @ wn @ '': '' @ message)
           then shown s @ [''Error connecting to '' @ wn @ '': '' @ message]
           else shown s)"
    if "\<not> mentionsNotInstalled (toLowerCase message)" "\<not> mentionsWrongNetwork (toLowerCase message)"
    using that
    by (simp add: onConnectError_def Let_def shown_showErrorOnce)
  show ?thesis using a b c d by blast
qed

theorem surfacing_by_category_witness:
  "connectionError (onConnectWallet demo_props (demo_env 0 (always (Inr [''stake1abc''])))
       0 ''alpha'' (initial demo_props)) = None
   \<and> shown (onConnectWallet demo_props (demo_env 0 (always (Inr [''stake1abc''])))
       0 ''alpha'' (initial demo_props))
     = [''alpha wallet is not installed. Please install it from the official website.'']
   \<and> connectionError (onConnectError demo_props 0 ''beta'' ''Wrong network''
       (initial demo_props))
     = Some ''Network mismatch: This app requires Testnet. Please switch your wallet to Testnet and try again.''
   \<and> shown (onConnectError demo_props 0 ''beta'' ''Wrong network'' (initial demo_props))
     = [''Network mismatch: This app requires Testnet. Please switch your wallet to Testnet and try again.'']
   \<and> connectionError (onConnectError demo_props 0 ''beta'' ''user declined''
       (initial demo_props))
     = Some ''Error with beta: user declined''
   \<and> shown (onConnectError demo_props 0 ''beta'' ''user declined'' (initial demo_props))
     = [''Error connecting to beta: user declined'']"
proof -
  let ?E = "demo_env 0 (always (Inr [''stake1abc'']))"
  let ?s = "initial demo_props"
  have absent: "cardano ?E ''alpha'' = None"
    by (simp add: demo_env_def)
  have fresh: "lastErrorRef ?s = None" "shown ?s = []"
    by (simp_all add: initial_def)
  have net: "expectedNetwork demo_props = ''Testnet''"
    by (simp add: expectedNetwork_def demo_props_def)
  show ?thesis
    using surfacing_by_category [of ?E "''alpha''" demo_props 0 ?s "''Wrong network''"]
          surfacing_by_category [of ?E "''beta''" demo_props 0 ?s "''Wrong network''"]
          surfacing_by_category [of ?E "''beta''" demo_props 0 ?s "''user declined''"]
          absent wrong_network_text_class declined_text_class
    by (simp add: fresh net shouldShow_def notInstalledMessage_def)
qed

text \<open>
  The claim as written has every failure recorded. Selecting \<open>alpha\<close>, which is not
  installed, shows the message and records nothing.
\<close>

theorem not_installed_counterexample:
  "connectionError (run demo_props (demo_env 0 (always (Inr [''stake1abc''])))
       [OpenWalletList, ConnectWallet 0 ''alpha'']) = None
   \<and> shown (run demo_props (demo_env 0 (always (Inr [''stake1abc''])))
       [OpenWalletList, ConnectWallet 0 ''alpha''])
     = [''alpha wallet is not installed. Please install it from the official website.'']"
  by code_simp

text \<open>
  Claim C7, as the code has it. For a provider that is not installed, onConnectWallet and
  onConnectError hand the same text to the throttle, and leave the throttle in the same
  state; neither records the text: onConnectWallet leaves \<open>connectionError\<close> empty,
  onConnectError leaves it as it was. For a wrong network the two texts agree up to "Please switch your wallet" and
  then differ: onConnectWallet ends with "network.", onConnectError with
  "to Mainnet (or Testnet) and try again."
\<close>

theorem same_text_only_for_not_installed:
  "(cardano e wn = None \<and> mentionsNotInstalled (toLowerCase message) \<longrightarrow>
      shown (onConnectWallet p e now wn s) = shown (onConnectError p now wn message s)
      \<and> lastErrorRef (onConnectWallet p e now wn s) =
          lastErrorRef (onConnectError p now wn message s)
      \<and> connectionError (onConnectWallet p e now wn s) = None
      \<and> connectionError (onConnectError p now wn message s) = connectionError s)
   \<and> (cardano e wn = Some en \<and> en (enableCount s wn) = Inr api
        \<and> getNetworkId e api (networkCount s api) = Inr nid \<and> nid \<noteq> expectedNetworkId p
        \<and> \<not> mentionsNotInstalled (toLowerCase message)
        \<and> mentionsWrongNetwork (toLowerCase message)
        \<and> lastErrorRef s = None \<longrightarrow>
      shown (onConnectWallet p e now wn s) =
        shown s @ [''Network mismatch: This app requires '' @ expectedNetwork p
                     @ ''. Please switch your wallet '' @ ''network.'']
      \<and> shown (onConnectError p now wn message s) =
        shown s @ [''Network mismatch: This app requires '' @ expectedNetwork p
                     @ ''. Please switch your wallet '' @ ''to '' @ expectedNetwork p
                     @ '' and try again.''])"
proof -
  have a: "shown (onConnectWallet p e now wn s) = shown (onConnectError p now wn message s)
      \<and> lastErrorRef (onConnectWallet p e now wn s) =
          lastErrorRef (onConnectError p now wn message s)
      \<and> connectionError (onConnectWallet p e now wn s) = None
      \<and> connectionError (onConnectError p now wn message s) = connectionError s"
    if ni: "cardano e wn = None" and m: "mentionsNotInstalled (toLowerCase message)"
    using m
    by (simp add: onConnectWallet_not_installed [OF ni] connectFinally_def onConnectError_def
                  Let_def shown_showErrorOnce lastErrorRef_showErrorOnce
                  connectionError_showErrorOnce connectBegin_def)
  have b: "shown (onConnectWallet p e now wn s) =
        shown s @ [''Network mismatch: This app requires '' @ expectedNetwork p
                     @ ''. Please switch your wallet '' @ ''network.'']
      \<and> shown (onConnectError p now wn message s) =
        shown s @ [''Network mismatch: This app requires '' @ expectedNetwork p
                     @ ''. Please switch your wallet '' @ ''to '' @ expectedNetwork p
                     @ '' and try again.'']"
    if reg: "cardano e wn = Some en" and first: "en (enableCount s wn) = Inr api"
      and net: "getNetworkId e api (networkCount s api) = Inr nid"
      and wrong: "nid \<noteq> expectedNetworkId p"
      and m: "\<not> mentionsNotInstalled (toLowerCase message)"
             "mentionsWrongNetwork (toLowerCase message)"
      and fresh: "lastErrorRef s = None"
    using m fresh
    by (simp add: onConnectWallet_wrong_network [OF reg first net wrong]
                  onConnectError_def Let_def shown_showErrorOnce shouldShow_def)
  show ?thesis using a b by blast
qed

theorem same_text_only_for_not_installed_witness:
  "shown (onConnectWallet demo_props (demo_env 0 (always (Inr [''stake1abc''])))
       0 ''alpha'' (initial demo_props))
     = shown (onConnectError demo_props 0 ''alpha'' ''Wallet not found'' (initial demo_props))
   \<and> connectionError (onConnectWallet demo_props (demo_env 0 (always (Inr [''stake1abc''])))
       0 ''alpha'' (initial demo_props)) = None
   \<and> connectionError (onConnectError demo_props 0 ''alpha'' ''Wallet not found''
       (initial demo_props)) = None
   \<and> shown (onConnectWallet demo_props (demo_env 1 (always (Inr [''stake1abc''])))
       0 ''beta'' (initial demo_props))
     = [''Network mismatch: This app requires Testnet. Please switch your wallet network.'']"
proof -
  let ?E = "demo_env 0 (always (Inr [''stake1abc'']))"
  let ?F = "demo_env 1 (always (Inr [''stake1abc'']))"
  let ?s = "initial demo_props"
  let ?en = "\<lambda>n. Inr n :: thrown + handle"
  have absent: "cardano ?E ''alpha'' = None"
    by (simp add: demo_env_def)
  have reg: "cardano ?F ''beta'' = Some ?en"
    by (simp add: demo_env_def)
  have first: "?en (enableCount ?s ''beta'') = Inr 0"
    by (simp add: initial_def)
  have net: "getNetworkId ?F 0 (networkCount ?s 0) = Inr 1"
    by (simp add: demo_env_def)
  have wrong: "(1::int) \<noteq> expectedNetworkId demo_props"
    by (simp add: expectedNetworkId_def demo_props_def)
  have fresh: "lastErrorRef ?s = None" "shown ?s = []" "connectionError ?s = None"
    by (simp_all add: initial_def)
  have name: "expectedNetwork demo_props = ''Testnet''"
    by (simp add: expectedNetwork_def demo_props_def)
  show ?thesis
    using same_text_only_for_not_installed
            [of ?E "''alpha''" "''Wallet not found''" demo_props 0 ?s]
          same_text_only_for_not_installed
            [of ?F "''beta''" "''Wrong network''" demo_props 0 ?s ?en 0 1]
          absent not_found_text_class reg first net wrong wrong_network_text_class
    by (simp add: fresh name)
qed

text \<open>
  The claim as written wants identical text for a wrong network too. With the host on the
  test network, a wallet on network 1 and a wallet list reporting "Wrong network", the
  two notifications differ.
\<close>

theorem wrong_network_texts_differ_counterexample:
  "shown (onConnectWallet demo_props (demo_env 1 (always (Inr [''stake1abc'']))) 0 ''beta''
            (initial demo_props))
     = [''Network mismatch: This app requires Testnet. Please switch your wallet network.'']
   \<and> shown (onConnectError demo_props 0 ''beta'' ''Wrong network'' (initial demo_props))
     = [''Network mismatch: This app requires Testnet. Please switch your wallet to Testnet and try again.'']
   \<and> shown (onConnectWallet demo_props (demo_env 1 (always (Inr [''stake1abc'']))) 0 ''beta''
            (initial demo_props))
     \<noteq> shown (onConnectError demo_props 0 ''beta'' ''Wrong network'' (initial demo_props))"
  by code_simp

subsection \<open>Disconnecting\<close>

text \<open>
  Claim C8, as the code has it. handleDisconnect does not look at the session: every
  invocation clears the wallet state and, when the host supplied onDisconnect, calls it
  once. A second invocation finds the wallet state already cleared and leaves it so, and
  calls onDisconnect once more.
\<close>

theorem handleDisconnect_notifies_every_time:
  "handleDisconnect p s =
     s\<lparr>walletState := disconnectedWallet,
       disconnects := (if has_onDisconnect p then disconnects s + 1 else disconnects s)\<rparr>
   \<and> walletState (handleDisconnect p (handleDisconnect p s)) =
       walletState (handleDisconnect p s)
   \<and> disconnects (handleDisconnect p (handleDisconnect p s)) =
       (if has_onDisconnect p then disconnects s + 2 else disconnects s)"
  by (cases s) (simp add: handleDisconnect_def Let_def)

theorem handleDisconnect_notifies_every_time_witness:
  "walletState (handleDisconnect demo_props
      (onConnectWallet demo_props (demo_env 0 (always (Inr [''stake1abc''])))
         0 ''beta'' (initial demo_props))) = disconnectedWallet
   \<and> disconnects (handleDisconnect demo_props
      (onConnectWallet demo_props (demo_env 0 (always (Inr [''stake1abc''])))
         0 ''beta'' (initial demo_props))) =
     disconnects (onConnectWallet demo_props (demo_env 0 (always (Inr [''stake1abc''])))
         0 ''beta'' (initial demo_props)) + 1"
  using handleDisconnect_notifies_every_time [of demo_props
      "onConnectWallet demo_props (demo_env 0 (always (Inr [''stake1abc''])))
         0 ''beta'' (initial demo_props)"]
  by (simp add: demo_props_def)

text \<open>
  The claim as written has the second call not notify the host. Connect with stake
  address "stake1abc", disconnect twice: onDisconnect has been called twice, the second
  time on a session that was not connected.
\<close>

theorem second_disconnect_counterexample:
  "stakeAddress (walletState (run demo_props (demo_env 0 (always (Inr [''stake1abc''])))
       [ConnectWallet 0 ''beta''])) = Some ''stake1abc''
   \<and> disconnects (run demo_props (demo_env 0 (always (Inr [''stake1abc''])))
       [ConnectWallet 0 ''beta'', Disconnect]) = 1
   \<and> \<not> isConnected (walletState (run demo_props (demo_env 0 (always (Inr [''stake1abc''])))
       [ConnectWallet 0 ''beta'', Disconnect]))
   \<and> disconnects (run demo_props (demo_env 0 (always (Inr [''stake1abc''])))
       [ConnectWallet 0 ''beta'', Disconnect, Disconnect]) = 2"
  by code_simp

subsection \<open>A second selection while connecting\<close>




subsection \<open>The error throttle\<close>

text \<open>
  Claim C5. A report of message \<open>m\<close> at time \<open>t\<close> reaches showError exactly when
  nothing is remembered, or the remembered message is another one, or strictly more than
  1000 ms have passed since the remembered timestamp. When it does, the remembered pair
  becomes \<open>(m, t)\<close>; when it does not, nothing changes at all. The state is arbitrary,
  so this holds after every sequence of earlier reports.
\<close>

theorem showErrorOnce_throttle:
  "showErrorOnce t m s =
     (if lastErrorRef s = None \<or>
         (\<exists>m0 t0. lastErrorRef s = Some (m0, t0) \<and> (m0 \<noteq> m \<or> 1000 < t - t0))
      then s\<lparr>shown := shown s @ [m], lastErrorRef := Some (m, t)\<rparr>
      else s)
   \<and> (shown (showErrorOnce t m s) = shown s @ [m]) =
       (lastErrorRef s = None \<or>
         (\<exists>m0 t0. lastErrorRef s = Some (m0, t0) \<and> (m0 \<noteq> m \<or> 1000 < t - t0)))"
  by (auto simp: showErrorOnce_def shouldShow_def split: option.splits)

text \<open>
  The three runs the specification lists: the same message twice within 1000 ms (the
  second is dropped, even at exactly 1000 ms), two different messages, and the same
  message again after more than 1000 ms.
\<close>

theorem showErrorOnce_throttle_witness:
  "shown (showErrorOnce 0 ''X'' (initial demo_props)) = [''X'']
   \<and> shown (showErrorOnce 1000 ''X'' (showErrorOnce 0 ''X'' (initial demo_props))) = [''X'']
   \<and> shown (showErrorOnce 0 ''Y'' (showErrorOnce 0 ''X'' (initial demo_props))) = [''X'', ''Y'']
   \<and> shown (showErrorOnce 1001 ''X'' (showErrorOnce 0 ''X'' (initial demo_props))) = [''X'', ''X'']"
proof -
  let ?s0 = "initial demo_props"
  let ?s1 = "?s0\<lparr>shown := [''X''], lastErrorRef := Some (''X'', 0)\<rparr>"
  have s1: "showErrorOnce 0 ''X'' ?s0 = ?s1"
    using showErrorOnce_throttle [of 0 "''X''" ?s0] by (simp add: initial_def)
  have "showErrorOnce 1000 ''X'' ?s1 = ?s1"
    using showErrorOnce_throttle [of 1000 "''X''" ?s1] by simp
  moreover have "shown (showErrorOnce 0 ''Y'' ?s1) = [''X'', ''Y'']"
    using showErrorOnce_throttle [of 0 "''Y''" ?s1] by simp
  moreover have "shown (showErrorOnce 1001 ''X'' ?s1) = [''X'', ''X'']"
    using showErrorOnce_throttle [of 1001 "''X''" ?s1] by simp
  ultimately show ?thesis using s1 by simp
qed

subsection \<open>Which handle a recovered negotiation hands over\<close>

text \<open>
  Claim C10. When the three attempts on the first handle are used up, the second enable
  returns another handle and its query answers, onConnectWallet stores and passes to
  onConnect the handle of the first enable; from the second handle it takes the address
  list only.
\<close>

theorem reenable_keeps_first_handle:
  assumes reg: "cardano e wn = Some en"
      and first: "en (enableCount s wn) = Inr api"
      and net: "getNetworkId e api (networkCount s api) = Inr (expectedNetworkId p)"
      and f0: "getRewardAddresses e api (rewardCount s api) = Inl (JsError m0)"
      and c0: "str_includes m0 ''account changed''"
      and f1: "getRewardAddresses e api (rewardCount s api + 1) = Inl (JsError m1)"
      and c1: "str_includes m1 ''account changed''"
      and f2: "getRewardAddresses e api (rewardCount s api + 2) = Inl (JsError m2)"
      and c2: "str_includes m2 ''account changed''"
      and second: "en (enableCount s wn + 1) = Inr newApi"
      and fresh: "newApi \<noteq> api"
      and final: "getRewardAddresses e newApi (rewardCount s newApi) = Inr addrs"
  shows "walletState (onConnectWallet p e now wn s) =
           \<lparr>isConnected = True, walletName = Some wn, walletApi = Some api,
            stakeAddress = firstStakeAddress addrs\<rparr>
       \<and> connects (onConnectWallet p e now wn s) =
           (if has_onConnect p then connects s @ [(wn, api, firstStakeAddress addrs)]
            else connects s)
       \<and> calls (onConnectWallet p e now wn s) =
           calls s @ [Enable wn, GetNetworkId api, Delay 100,
                      GetRewardAddresses api, Delay 500, GetRewardAddresses api, Delay 500,
                      GetRewardAddresses api, Enable wn, Delay 200, GetRewardAddresses newApi]"
proof -
  define s0 where "s0 = connectBegin wn s"
  define s1 where "s1 = snd (callEnable e wn s0)"
  define s1' where "s1' = snd (callGetNetworkId e api s1)"
  define s2 where "s2 = delay 100 s1'"
  have en: "callEnable e wn s0 = (Inr api, s1)"
    using reg first by (simp add: s1_def s0_def callEnable_def connectBegin_def)
  have nc: "networkCount s1 = networkCount s"
    using reg by (simp add: s1_def s0_def callEnable_def connectBegin_def)
  have nid: "callGetNetworkId e api s1 = (Inr (expectedNetworkId p), s1')"
    using net by (simp add: s1'_def callGetNetworkId_def nc)
  have rc1: "rewardCount s1 = rewardCount s" and ec1: "enableCount s1 wn = Suc (enableCount s wn)"
   and cl1: "calls s1 = calls s @ [Enable wn]" and ws1: "walletState s1 = walletState s"
   and cn1: "connects s1 = connects s"
    using reg by (simp_all add: s1_def s0_def callEnable_def connectBegin_def)
  have rc: "rewardCount s2 = rewardCount s" and ec: "enableCount s2 wn = Suc (enableCount s wn)"
   and cl: "calls s2 = calls s @ [Enable wn, GetNetworkId api, Delay 100]"
   and ws: "walletState s2 = walletState s" and cn: "connects s2 = connects s"
    by (simp_all add: s2_def s1'_def delay_def callGetNetworkId_def rc1 ec1 cl1 ws1 cn1)
  have a0: "getRewardAddresses e api (rewardCount s2 api) = Inl (JsError m0)"
   and a1: "getRewardAddresses e api (Suc (rewardCount s2 api)) = Inl (JsError m1)"
   and a2: "getRewardAddresses e api (Suc (Suc (rewardCount s2 api))) = Inl (JsError m2)"
    using f0 f1 f2 by (simp_all add: rc)
  have t0: "isAccountChanged (JsError m0)" and t1: "isAccountChanged (JsError m1)"
   and t2: "isAccountChanged (JsError m2)"
    using c0 c1 c2 by simp_all
  have second': "en (enableCount s2 wn) = Inr newApi"
    using second by (simp add: ec)
  have final': "getRewardAddresses e newApi (rewardCount s2 newApi) = Inr addrs"
    using final by (simp add: rc)
  note fetch = fetch_recovers_on_fresh_handle [OF a0 t0 a1 t1 a2 t2 reg second' fresh final']
  have run: "onConnectWallet p e now wn s =
     connectFinally (handleSuccessfulConnect p wn api (firstStakeAddress addrs)
        (snd (fetchRewardAddresses e wn api s2)))"
    by (simp add: onConnectWallet_def reg Let_def en nid fetch flip: s0_def s2_def)
  show ?thesis
    unfolding run fetch
    by (simp add: handleSuccessfulConnect_def connectFinally_def Let_def ws cn cl)
qed

theorem reenable_keeps_first_handle_witness:
  "walletState (onConnectWallet demo_props
       (demo_env 0 (first_handle_fails ''account changed'' [''stake1abc''])) 0 ''beta''
       (initial demo_props))
     = \<lparr>isConnected = True, walletName = Some ''beta'', walletApi = Some 0,
        stakeAddress = Some ''stake1abc''\<rparr>
   \<and> connects (onConnectWallet demo_props
       (demo_env 0 (first_handle_fails ''account changed'' [''stake1abc''])) 0 ''beta''
       (initial demo_props))
     = [(''beta'', 0, Some ''stake1abc'')]
   \<and> calls (onConnectWallet demo_props
       (demo_env 0 (first_handle_fails ''account changed'' [''stake1abc''])) 0 ''beta''
       (initial demo_props))
     = [Enable ''beta'', GetNetworkId 0, Delay 100,
        GetRewardAddresses 0, Delay 500, GetRewardAddresses 0, Delay 500,
        GetRewardAddresses 0, Enable ''beta'', Delay 200, GetRewardAddresses 1]"
proof -
  let ?E = "demo_env 0 (first_handle_fails ''account changed'' [''stake1abc''])"
  let ?s = "initial demo_props"
  let ?en = "\<lambda>n. Inr n :: thrown + handle"
  have reg: "cardano ?E ''beta'' = Some ?en"
    by (simp add: demo_env_def)
  have first: "?en (enableCount ?s ''beta'') = Inr 0"
   and second: "?en (enableCount ?s ''beta'' + 1) = Inr 1"
    by (simp_all add: initial_def)
  have net: "getNetworkId ?E 0 (networkCount ?s 0) = Inr (expectedNetworkId demo_props)"
    by (simp add: demo_env_def expectedNetworkId_def demo_props_def)
  have f0: "getRewardAddresses ?E 0 (rewardCount ?s 0) = Inl (JsError ''account changed'')"
   and f1: "getRewardAddresses ?E 0 (rewardCount ?s 0 + 1) = Inl (JsError ''account changed'')"
   and f2: "getRewardAddresses ?E 0 (rewardCount ?s 0 + 2) = Inl (JsError ''account changed'')"
   and final: "getRewardAddresses ?E 1 (rewardCount ?s 1) = Inr [''stake1abc'']"
    by (simp_all add: demo_env_def first_handle_fails_def)
  have fresh: "(1::handle) \<noteq> 0" by simp
  show ?thesis
    using reenable_keeps_first_handle [OF reg first net f0 lit_includes f1 lit_includes
            f2 lit_includes second fresh final, of 0]
    by (simp add: firstStakeAddress_def demo_props_def initial_def)
qed

end
